theory Spec2Isabelle
  imports Main
begin

section \<open>NetBox secrets: key validation and the secret forms (secrets/forms.py)\<close>

subsection \<open>Errors\<close>

text \<open>
  The exceptions that the functions of forms.py let escape. \<open>forms.ValidationError\<close> is
  raised either with a plain message (first component \<open>None\<close>) or with a dictionary
  \<open>{field: message}\<close> (first component the field's name). \<open>KeyError\<close> is what Python
  raises when a dictionary is indexed at a key it does not hold; it carries the key.
\<close>

datatype error = ValidationError "string option" string | KeyError string

subsection \<open>validate_rsa_key\<close>

text \<open>
  \<open>RSA.importKey\<close> and \<open>PKCS1_OAEP.new\<close> belong to the Crypto library, not to this
  repository, so they are parameters of the model. \<open>RSA.importKey\<close> either raises
  \<open>ValueError\<close>, or raises another exception (whose text goes into the message), or
  returns a key object; \<open>has_private\<close> is the key object's method. \<open>PKCS1_OAEP.new\<close> either
  raises (\<open>False\<close>) or returns a cipher object (\<open>True\<close>); the object itself is dropped by
  the source.
\<close>

datatype 'k import_result = ImportValueError | ImportException string | Imported 'k

record 'k Crypto =
  importKey :: "string \<Rightarrow> 'k import_result"
  has_private :: "'k \<Rightarrow> bool"
  PKCS1_OAEP_new :: "'k \<Rightarrow> bool"

definition startswith :: "'a list \<Rightarrow> 'a list \<Rightarrow> bool" where
  "startswith s p = (take (length p) s = p)"

definition msg_openssh :: string where
  "msg_openssh = ''OpenSSH line format is not supported. Please ensure that your public is in PEM (base64) format.''"

definition msg_invalid_rsa :: string where
  "msg_invalid_rsa = ''Invalid RSA key. Please ensure that your key is in PEM (base64) format.''"

definition msg_invalid_key :: "string \<Rightarrow> string" where
  "msg_invalid_key e = ''Invalid key detected: '' @ e"

definition msg_looks_public :: string where
  "msg_looks_public = ''This looks like a public key. Please provide your private RSA key.''"

definition msg_looks_private :: string where
  "msg_looks_private = ''This looks like a private key. Please provide your public RSA key.''"

definition msg_oaep :: string where
  "msg_oaep = ''Error validating RSA key. Please ensure that your key supports PKCS#1 OAEP.''"

definition validate_rsa_key :: "'k Crypto \<Rightarrow> string \<Rightarrow> bool \<Rightarrow> error + unit" where
  "validate_rsa_key lib key is_secret =
     (if startswith key ''ssh-rsa '' then Inl (ValidationError None msg_openssh)
      else case importKey lib key of
             ImportValueError \<Rightarrow> Inl (ValidationError None msg_invalid_rsa)
           | ImportException e \<Rightarrow> Inl (ValidationError None (msg_invalid_key e))
           | Imported k \<Rightarrow>
               if is_secret \<and> \<not> has_private lib k
                 then Inl (ValidationError None msg_looks_public)
               else if \<not> is_secret \<and> has_private lib k
                 then Inl (ValidationError None msg_looks_private)
               else if PKCS1_OAEP_new lib k then Inr ()
               else Inl (ValidationError None msg_oaep))"

text \<open>
  The two messages of a failed parse (lines 27 and 29 of the source) and the two messages
  of a key of the wrong kind (lines 31 and 33).
\<close>

definition is_format_msg :: "string \<Rightarrow> bool" where
  "is_format_msg m = (m = msg_invalid_rsa \<or> startswith m ''Invalid key detected: '')"

definition is_kind_msg :: "string \<Rightarrow> bool" where
  "is_kind_msg m = (m = msg_looks_public \<or> m = msg_looks_private)"

subsection \<open>Django's CharField, as far as the secret forms configure it\<close>

text \<open>
  The secret plaintext is a Python \<open>str\<close>: a sequence of code points, and \<open>len\<close> counts
  code points. It is modelled as a list of code points. (Key blobs, names and messages are
  only compared and tested for an ASCII prefix, so they stay \<open>string\<close>.)
  \<open>str.strip()\<close> removes the characters for which \<open>str.isspace\<close> holds from both ends.
\<close>

type_synonym pystr = "nat list"

definition isspace :: "nat \<Rightarrow> bool" where
  "isspace c = ((9 \<le> c \<and> c \<le> 13) \<or> (28 \<le> c \<and> c \<le> 32) \<or> c = 133 \<or> c = 160
     \<or> c = 5760 \<or> (8192 \<le> c \<and> c \<le> 8202) \<or> c = 8232 \<or> c = 8233 \<or> c = 8239
     \<or> c = 8287 \<or> c = 12288)"

definition strip :: "pystr \<Rightarrow> pystr" where
  "strip s = rev (dropWhile isspace (rev (dropWhile isspace s)))"

text \<open>
  A \<open>forms.CharField\<close> as forms.py declares it: only \<open>max_length\<close> and \<open>required\<close> are
  ever set there; \<open>strip\<close> keeps its default \<open>True\<close> and \<open>empty_value\<close> its default \<open>''\<close>.
  \<open>CharField_clean\<close> is Django's \<open>Field.clean\<close>: \<open>to_python\<close> (a value absent from the
  submitted data is \<open>None\<close> and becomes the empty string; any other value is stripped),
  then \<open>validate\<close> (an empty value of a required field is an error), then
  \<open>run_validators\<close> (skipped for an empty value; otherwise the errors of the
  maximum-length validator, present only when \<open>max_length\<close> is set, and of the
  null-character validator are collected).
\<close>

record CharField =
  max_length :: "nat option"
  required :: bool

datatype field_error = required_error | max_length_error nat nat | null_characters_error

definition to_python :: "pystr option \<Rightarrow> pystr" where
  "to_python v = (case v of None \<Rightarrow> [] | Some s \<Rightarrow> strip s)"

definition run_validators :: "CharField \<Rightarrow> pystr \<Rightarrow> field_error list" where
  "run_validators f v =
     (case max_length f of
        None \<Rightarrow> []
      | Some m \<Rightarrow> if length v > m then [max_length_error m (length v)] else [])
     @ (if 0 \<in> set v then [null_characters_error] else [])"

definition CharField_clean :: "CharField \<Rightarrow> pystr option \<Rightarrow> field_error list + pystr" where
  "CharField_clean f raw =
     (let v = to_python raw in
      if v = [] then (if required f then Inl [required_error] else Inr [])
      else if run_validators f v = [] then Inr v
      else Inl (run_validators f v))"

subsection \<open>The plaintext fields of SecretForm and SecretCSVForm\<close>

text \<open>
  \<open>SECRET_PLAINTEXT_MAX_LENGTH\<close> comes from secrets/constants.py, which is not among the
  sources; it is a parameter. \<open>instance_pk\<close> is \<open>self.instance.pk\<close>: \<open>None\<close> for a
  record that is not stored yet. \<open>not self.instance.pk\<close> is Python's truth test, true for
  \<open>None\<close> and for \<open>0\<close>.
\<close>

definition py_not :: "int option \<Rightarrow> bool" where
  "py_not p = (case p of None \<Rightarrow> True | Some i \<Rightarrow> i = 0)"

definition SecretForm_plaintext :: "nat \<Rightarrow> int option \<Rightarrow> CharField" where
  "SecretForm_plaintext SECRET_PLAINTEXT_MAX_LENGTH instance_pk =
     (let declared = \<lparr>max_length = Some SECRET_PLAINTEXT_MAX_LENGTH, required = False\<rparr>
      in if py_not instance_pk then declared\<lparr>required := True\<rparr> else declared)"

definition SecretForm_plaintext2 :: "nat \<Rightarrow> CharField" where
  "SecretForm_plaintext2 SECRET_PLAINTEXT_MAX_LENGTH =
     \<lparr>max_length = Some SECRET_PLAINTEXT_MAX_LENGTH, required = False\<rparr>"

definition SecretCSVForm_plaintext :: CharField where
  "SecretCSVForm_plaintext = \<lparr>max_length = None, required = True\<rparr>"

text \<open>
  \<open>SecretCSVForm.save\<close>: \<open>s\<close> is the object that \<open>super().save()\<close> returned (the base
  class is not among the sources, so it is an argument); the result pairs it with the
  value assigned to its \<open>plaintext\<close> attribute, \<open>str\<close> of the cleaned plaintext, which is
  the cleaned plaintext itself. The argument \<open>plaintext\<close> is the entry of \<open>cleaned_data\<close>,
  \<open>None\<close> when the key is absent.
\<close>

definition SecretCSVForm_save :: "'s \<Rightarrow> pystr option \<Rightarrow> error + 's \<times> pystr" where
  "SecretCSVForm_save s plaintext =
     (case plaintext of None \<Rightarrow> Inl (KeyError ''plaintext'') | Some p \<Rightarrow> Inr (s, p))"

subsection \<open>SecretForm.clean\<close>

text \<open>
  The stored secrets, as far as \<open>clean\<close> queries them: primary key, the primary keys of
  the device and of the role, and the name. \<open>Secret.objects\<close> is the list of stored rows.
  \<open>filter\<close> keeps the rows that agree on all three; \<open>exclude(pk=p)\<close> drops the row whose
  primary key is \<open>p\<close>, and drops nothing for \<open>p = None\<close> (no stored row has a null key);
  \<open>exists\<close> tells whether a row is left.
\<close>

record Secret =
  pk :: int
  device :: nat
  role :: nat
  name :: string

definition filter_qs :: "nat \<Rightarrow> nat \<Rightarrow> string \<Rightarrow> Secret list \<Rightarrow> Secret list" where
  "filter_qs d r n qs = filter (\<lambda>s. device s = d \<and> role s = r \<and> name s = n) qs"

definition exclude_qs :: "int option \<Rightarrow> Secret list \<Rightarrow> Secret list" where
  "exclude_qs p qs = (case p of None \<Rightarrow> qs | Some i \<Rightarrow> filter (\<lambda>s. pk s \<noteq> i) qs)"

definition exists_qs :: "Secret list \<Rightarrow> bool" where
  "exists_qs qs = (qs \<noteq> [])"

text \<open>
  \<open>self.cleaned_data\<close> is a dictionary; a key is absent from it when the field's own
  validation failed. Each of the five keys that \<open>clean\<close> reads is an optional component:
  \<open>None\<close> is the absent key, and reading it raises \<open>KeyError\<close>. The reads happen in the
  order of the source: plaintext, plaintext2, then device, role, name.
\<close>

record cleaned_data =
  cd_plaintext :: "pystr option"
  cd_plaintext2 :: "pystr option"
  cd_device :: "nat option"
  cd_role :: "nat option"
  cd_name :: "string option"

definition msg_mismatch :: string where
  "msg_mismatch = ''The two given plaintext values do not match. Please check your input.''"

definition msg_unique :: string where
  "msg_unique = ''Each secret assigned to a device must have a unique combination of role and name''"

definition SecretForm_clean :: "int option \<Rightarrow> Secret list \<Rightarrow> cleaned_data \<Rightarrow> error + unit" where
  "SecretForm_clean instance_pk objects cd =
     (case cd_plaintext cd of None \<Rightarrow> Inl (KeyError ''plaintext'') | Some p \<Rightarrow>
      case cd_plaintext2 cd of None \<Rightarrow> Inl (KeyError ''plaintext2'') | Some p2 \<Rightarrow>
      if p \<noteq> p2 then Inl (ValidationError (Some ''plaintext2'') msg_mismatch)
      else
      case cd_device cd of None \<Rightarrow> Inl (KeyError ''device'') | Some d \<Rightarrow>
      case cd_role cd of None \<Rightarrow> Inl (KeyError ''role'') | Some r \<Rightarrow>
      case cd_name cd of None \<Rightarrow> Inl (KeyError ''name'') | Some n \<Rightarrow>
      if exists_qs (exclude_qs instance_pk (filter_qs d r n objects))
        then Inl (ValidationError None msg_unique)
      else Inr ())"

text \<open>
  Django's \<open>full_clean\<close> around it, for the five fields above. The two plaintext fields
  are cleaned by their \<open>CharField\<close>s and enter \<open>cleaned_data\<close> only when that succeeds.
  The device, role and name fields are declared outside forms.py (a model field and
  choice fields of utilities.forms), so the outcome of their cleaning is an argument:
  the cleaned value, or \<open>None\<close> when the field was rejected. Then \<open>clean\<close> runs; a
  \<open>ValidationError\<close> it raises is recorded in the form's errors, any other exception
  escapes from \<open>full_clean\<close>. When \<open>clean\<close> returns, all five keys were present, so none
  of the five fields has an error.
\<close>

datatype outcome = Raised error | Invalid | Valid

definition cleaned :: "field_error list + pystr \<Rightarrow> pystr option" where
  "cleaned r = (case r of Inl errs \<Rightarrow> None | Inr v \<Rightarrow> Some v)"

definition SecretForm_full_clean ::
    "nat \<Rightarrow> int option \<Rightarrow> Secret list \<Rightarrow> pystr option \<Rightarrow> pystr option \<Rightarrow> nat option \<Rightarrow> nat option
       \<Rightarrow> string option \<Rightarrow> outcome" where
  "SecretForm_full_clean SECRET_PLAINTEXT_MAX_LENGTH instance_pk objects plaintext plaintext2 dev rol nam =
     (let cd = \<lparr>cd_plaintext =
                   cleaned (CharField_clean (SecretForm_plaintext SECRET_PLAINTEXT_MAX_LENGTH instance_pk) plaintext),
                cd_plaintext2 =
                   cleaned (CharField_clean (SecretForm_plaintext2 SECRET_PLAINTEXT_MAX_LENGTH) plaintext2),
                cd_device = dev, cd_role = rol, cd_name = nam\<rparr>
      in case SecretForm_clean instance_pk objects cd of
           Inl (KeyError k) \<Rightarrow> Raised (KeyError k)
         | Inl (ValidationError f m) \<Rightarrow> Invalid
         | Inr u \<Rightarrow> Valid)"

subsection \<open>Creating a record in the core\<close>

text \<open>
  Modelled from the spec: the creation of a SecretRecord by the persistence core, which
  bulk import goes through. The record model (secrets/models.py) and the base classes of
  \<open>SecretCSVForm\<close> (extras.forms, utilities.forms) are not among the sources; the
  class itself declares no uniqueness check. The spec: "(device, role, name) is unique
  across all records", "creating two SecretRecords with identical (device, role, name):
  the second create fails with UniquenessViolation", and for bulk import "the core's
  uniqueness and encryption rules apply identically to bulk-created records".
\<close>

datatype core_error = UniquenessViolation

definition next_pk :: "Secret list \<Rightarrow> int" where
  "next_pk qs = fold max (map pk qs) 0 + 1"

definition create_secret :: "Secret list \<Rightarrow> nat \<Rightarrow> nat \<Rightarrow> string \<Rightarrow> core_error + Secret list" where
  "create_secret objects d r n =
     (if filter_qs d r n objects \<noteq> [] then Inl UniquenessViolation
      else Inr (objects @ [\<lparr>pk = next_pk objects, device = d, role = r, name = n\<rparr>]))"

definition bulk_import_row :: "Secret list \<Rightarrow> nat \<Rightarrow> nat \<Rightarrow> string \<Rightarrow> core_error + Secret list" where
  "bulk_import_row objects d r n = create_secret objects d r n"

subsection \<open>An instance of the library for the examples\<close>

text \<open>
  A key object is a pair: whether it holds the private exponent, and the size of its
  modulus in bits. Four blobs parse, one makes the parser raise an exception other than
  \<open>ValueError\<close>, every other blob makes it raise \<open>ValueError\<close>. The cipher constructor
  refuses a modulus below 512 bits.
\<close>

definition example_lib :: "(bool \<times> nat) Crypto" where
  "example_lib =
     \<lparr>importKey = (\<lambda>blob.
         if blob = ''PRIVATE-2048'' then Imported (True, 2048)
         else if blob = ''PUBLIC-2048'' then Imported (False, 2048)
         else if blob = ''PRIVATE-256'' then Imported (True, 256)
         else if blob = ''ssh-rsa AAAA'' then Imported (False, 2048)
         else if blob = ''ENCRYPTED'' then ImportException ''passphrase needed''
         else ImportValueError),
       has_private = fst,
       PKCS1_OAEP_new = (\<lambda>k. 512 \<le> snd k)\<rparr>"

text \<open>
  Two stored secrets for the examples: both on device 1, with different roles and names.
\<close>

definition example_objects :: "Secret list" where
  "example_objects =
     [\<lparr>pk = 1, device = 1, role = 1, name = ''admin''\<rparr>,
      \<lparr>pk = 2, device = 1, role = 2, name = ''root''\<rparr>]"

section \<open>Properties\<close>

subsection \<open>validate_rsa_key\<close>

lemma kind_not_format: "is_kind_msg m \<Longrightarrow> \<not> is_format_msg m"
  by (auto simp: is_kind_msg_def is_format_msg_def startswith_def msg_looks_public_def
      msg_looks_private_def msg_invalid_rsa_def)

lemma invalid_key_is_format: "is_format_msg (msg_invalid_key e)"
  by (simp add: is_format_msg_def msg_invalid_key_def startswith_def)

lemma invalid_rsa_is_format: "is_format_msg msg_invalid_rsa"
  by (simp add: is_format_msg_def)

lemma oaep_openssh_neither:
  "\<not> is_format_msg msg_oaep" "\<not> is_kind_msg msg_oaep"
  "\<not> is_format_msg msg_openssh" "\<not> is_kind_msg msg_openssh"
  by (simp_all add: is_kind_msg_def is_format_msg_def startswith_def msg_looks_public_def
      msg_looks_private_def msg_invalid_rsa_def msg_oaep_def msg_openssh_def)

text \<open>
  C2. Whenever the parser is reached (the blob does not begin with \<open>ssh-rsa \<close>) and
  returns a key: a key without private components is refused with the "looks like a
  public key" message when a private key is expected; a key with private components is
  refused with the "looks like a private key" message when a public key is expected; a
  private key that the OAEP constructor accepts passes as a private key, and a public key
  that it accepts passes as a public key.
\<close>

theorem C2_key_kind_checked:
  assumes "\<not> startswith key ''ssh-rsa ''" and "importKey lib key = Imported k"
  shows "(\<not> has_private lib k \<longrightarrow>
            validate_rsa_key lib key True = Inl (ValidationError None msg_looks_public))
       \<and> (has_private lib k \<longrightarrow>
            validate_rsa_key lib key False = Inl (ValidationError None msg_looks_private))
       \<and> (has_private lib k \<and> PKCS1_OAEP_new lib k \<longrightarrow> validate_rsa_key lib key True = Inr ())
       \<and> (\<not> has_private lib k \<and> PKCS1_OAEP_new lib k \<longrightarrow> validate_rsa_key lib key False = Inr ())"
  using assms by (simp add: validate_rsa_key_def)

theorem C2_key_kind_checked_witness:
  "validate_rsa_key example_lib ''PRIVATE-2048'' True = Inr ()
   \<and> validate_rsa_key example_lib ''PRIVATE-2048'' False = Inl (ValidationError None msg_looks_private)
   \<and> validate_rsa_key example_lib ''PUBLIC-2048'' False = Inr ()
   \<and> validate_rsa_key example_lib ''PUBLIC-2048'' True = Inl (ValidationError None msg_looks_public)"
proof -
  have p1: "\<not> startswith ''PRIVATE-2048'' ''ssh-rsa ''"
    by (simp add: startswith_def)
  have p2: "importKey example_lib ''PRIVATE-2048'' = Imported (True, 2048)"
    by (simp add: example_lib_def)
  have q1: "\<not> startswith ''PUBLIC-2048'' ''ssh-rsa ''"
    by (simp add: startswith_def)
  have q2: "importKey example_lib ''PUBLIC-2048'' = Imported (False, 2048)"
    by (simp add: example_lib_def)
  from C2_key_kind_checked [OF p1 p2] C2_key_kind_checked [OF q1 q2]
  show ?thesis by (simp add: example_lib_def)
qed

text \<open>
  C5. For a parsed key of the expected kind, the outcome is decided by the construction
  of the OAEP cipher alone: success when it does not raise, and the "supports PKCS#1 OAEP"
  error when it does.
\<close>

theorem C5_oaep_construction_decides:
  assumes "\<not> startswith key ''ssh-rsa ''" and "importKey lib key = Imported k"
    and "is_secret = has_private lib k"
  shows "validate_rsa_key lib key is_secret =
           (if PKCS1_OAEP_new lib k then Inr () else Inl (ValidationError None msg_oaep))"
  using assms by (simp add: validate_rsa_key_def)

theorem C5_oaep_construction_decides_witness:
  "validate_rsa_key example_lib ''PRIVATE-256'' True = Inl (ValidationError None msg_oaep)
   \<and> validate_rsa_key example_lib ''PRIVATE-2048'' True = Inr ()"
proof -
  have p1: "\<not> startswith ''PRIVATE-256'' ''ssh-rsa ''"
    by (simp add: startswith_def)
  have p2: "importKey example_lib ''PRIVATE-256'' = Imported (True, 256)"
    by (simp add: example_lib_def)
  have p3: "True = has_private example_lib (True, 256)"
    by (simp add: example_lib_def)
  have q1: "\<not> startswith ''PRIVATE-2048'' ''ssh-rsa ''"
    by (simp add: startswith_def)
  have q2: "importKey example_lib ''PRIVATE-2048'' = Imported (True, 2048)"
    by (simp add: example_lib_def)
  have q3: "True = has_private example_lib (True, 2048)"
    by (simp add: example_lib_def)
  from C5_oaep_construction_decides [OF p1 p2 p3] C5_oaep_construction_decides [OF q1 q2 q3]
  show ?thesis by (simp add: example_lib_def)
qed

text \<open>
  C7. When the parser is reached and raises, the error is one of the two malformed-key
  messages and not a wrong-kind message; when it returns a key of the wrong kind, the
  error is a wrong-kind message and not a malformed-key message. Conversely, on every
  blob, a malformed-key message is only ever produced by a parse failure and a
  wrong-kind message only by a parsed key of the wrong kind. A blob that the parser
  would refuse is refused by \<open>validate_rsa_key\<close> in every case, with a malformed-key
  message or (when it begins with \<open>ssh-rsa \<close>) the OpenSSH message, never with a
  wrong-kind message.
\<close>

theorem C7_parse_failure_is_format_error:
  "(\<not> startswith key ''ssh-rsa '' \<and> (\<forall>k. importKey lib key \<noteq> Imported k) \<longrightarrow>
      (\<exists>m. validate_rsa_key lib key is_secret = Inl (ValidationError None m)
           \<and> is_format_msg m \<and> \<not> is_kind_msg m))
   \<and> (\<not> startswith key ''ssh-rsa '' \<and> importKey lib key = Imported k
        \<and> is_secret \<noteq> has_private lib k \<longrightarrow>
      (\<exists>m. validate_rsa_key lib key is_secret = Inl (ValidationError None m)
           \<and> is_kind_msg m \<and> \<not> is_format_msg m))
   \<and> (validate_rsa_key lib key is_secret = Inl (ValidationError f m) \<and> is_format_msg m \<longrightarrow>
        (\<forall>k. importKey lib key \<noteq> Imported k))
   \<and> (validate_rsa_key lib key is_secret = Inl (ValidationError f m) \<and> is_kind_msg m \<longrightarrow>
        (\<exists>k. importKey lib key = Imported k \<and> is_secret \<noteq> has_private lib k))
   \<and> ((\<forall>k. importKey lib key \<noteq> Imported k) \<longrightarrow>
      (\<exists>m. validate_rsa_key lib key is_secret = Inl (ValidationError None m)
           \<and> (is_format_msg m \<or> m = msg_openssh) \<and> \<not> is_kind_msg m))"
proof (intro conjI impI)
  assume a: "\<not> startswith key ''ssh-rsa '' \<and> (\<forall>k. importKey lib key \<noteq> Imported k)"
  show "\<exists>m. validate_rsa_key lib key is_secret = Inl (ValidationError None m)
           \<and> is_format_msg m \<and> \<not> is_kind_msg m"
  proof (cases "importKey lib key")
    case ImportValueError
    with a show ?thesis
      using kind_not_format invalid_rsa_is_format by (auto simp: validate_rsa_key_def)
  next
    case (ImportException e)
    with a show ?thesis
      using kind_not_format invalid_key_is_format by (auto simp: validate_rsa_key_def)
  next
    case (Imported k)
    with a show ?thesis by simp
  qed
next
  assume a: "\<not> startswith key ''ssh-rsa '' \<and> importKey lib key = Imported k
        \<and> is_secret \<noteq> has_private lib k"
  then show "\<exists>m. validate_rsa_key lib key is_secret = Inl (ValidationError None m)
           \<and> is_kind_msg m \<and> \<not> is_format_msg m"
    using kind_not_format by (auto simp: validate_rsa_key_def is_kind_msg_def)
next
  assume a: "validate_rsa_key lib key is_secret = Inl (ValidationError f m) \<and> is_format_msg m"
  show "\<forall>k. importKey lib key \<noteq> Imported k"
  proof (intro allI notI)
    fix k assume k: "importKey lib key = Imported k"
    from a k have "m \<in> {msg_openssh, msg_looks_public, msg_looks_private, msg_oaep}"
      by (auto simp: validate_rsa_key_def split: if_splits)
    with a show False
      using oaep_openssh_neither kind_not_format by (auto simp: is_kind_msg_def)
  qed
next
  assume a: "validate_rsa_key lib key is_secret = Inl (ValidationError f m) \<and> is_kind_msg m"
  show "\<exists>k. importKey lib key = Imported k \<and> is_secret \<noteq> has_private lib k"
  proof (cases "startswith key ''ssh-rsa ''")
    case True
    with a show ?thesis using oaep_openssh_neither by (auto simp: validate_rsa_key_def)
  next
    case False
    show ?thesis
    proof (cases "importKey lib key")
      case ImportValueError
      with a False show ?thesis
        using kind_not_format invalid_rsa_is_format by (auto simp: validate_rsa_key_def)
    next
      case (ImportException e)
      with a False show ?thesis
        using kind_not_format invalid_key_is_format by (auto simp: validate_rsa_key_def)
    next
      case (Imported k)
      with a False show ?thesis
        using oaep_openssh_neither by (auto simp: validate_rsa_key_def split: if_splits)
    qed
  qed
next
  assume a: "\<forall>k. importKey lib key \<noteq> Imported k"
  show "\<exists>m. validate_rsa_key lib key is_secret = Inl (ValidationError None m)
           \<and> (is_format_msg m \<or> m = msg_openssh) \<and> \<not> is_kind_msg m"
  proof (cases "startswith key ''ssh-rsa ''")
    case True
    then show ?thesis
      using oaep_openssh_neither by (auto simp: validate_rsa_key_def)
  next
    case False
    show ?thesis
    proof (cases "importKey lib key")
      case ImportValueError
      with False show ?thesis
        using kind_not_format invalid_rsa_is_format by (auto simp: validate_rsa_key_def)
    next
      case (ImportException e)
      with False show ?thesis
        using kind_not_format invalid_key_is_format by (auto simp: validate_rsa_key_def)
    next
      case (Imported k)
      with a show ?thesis by simp
    qed
  qed
qed

theorem C7_parse_failure_is_format_error_witness:
  "validate_rsa_key example_lib ''garbage'' True = Inl (ValidationError None msg_invalid_rsa)
   \<and> validate_rsa_key example_lib ''ENCRYPTED'' True
       = Inl (ValidationError None (msg_invalid_key ''passphrase needed''))
   \<and> is_format_msg msg_invalid_rsa \<and> \<not> is_kind_msg msg_invalid_rsa
   \<and> validate_rsa_key example_lib ''PUBLIC-2048'' True = Inl (ValidationError None msg_looks_public)
   \<and> is_kind_msg msg_looks_public \<and> \<not> is_format_msg msg_looks_public"
proof -
  have g: "\<not> startswith ''garbage'' ''ssh-rsa '' \<and> (\<forall>k. importKey example_lib ''garbage'' \<noteq> Imported k)"
    by (simp add: startswith_def example_lib_def)
  have v: "validate_rsa_key example_lib ''garbage'' True = Inl (ValidationError None msg_invalid_rsa)"
    by (simp add: validate_rsa_key_def startswith_def example_lib_def)
  have e: "validate_rsa_key example_lib ''ENCRYPTED'' True
       = Inl (ValidationError None (msg_invalid_key ''passphrase needed''))"
    by (simp add: validate_rsa_key_def startswith_def example_lib_def)
  have p: "\<not> startswith ''PUBLIC-2048'' ''ssh-rsa ''
        \<and> importKey example_lib ''PUBLIC-2048'' = Imported (False, 2048)
        \<and> True \<noteq> has_private example_lib (False, 2048)"
    by (simp add: startswith_def example_lib_def)
  have w: "validate_rsa_key example_lib ''PUBLIC-2048'' True = Inl (ValidationError None msg_looks_public)"
    by (simp add: validate_rsa_key_def startswith_def example_lib_def)
  from C7_parse_failure_is_format_error
         [of "''garbage''" example_lib True "(False, 2048)" None msg_invalid_rsa] g v
  have 1: "is_format_msg msg_invalid_rsa \<and> \<not> is_kind_msg msg_invalid_rsa"
    by auto
  from C7_parse_failure_is_format_error
         [of "''PUBLIC-2048''" example_lib True "(False, 2048)" None msg_looks_public] p w
  have 2: "is_kind_msg msg_looks_public \<and> \<not> is_format_msg msg_looks_public"
    by auto
  from v e w 1 2 show ?thesis by simp
qed

text \<open>
  C6. A key blob that begins with \<open>ssh-rsa \<close> is rejected with the OpenSSH message,
  whatever the parser and the cipher constructor would do with it (they are never
  consulted), whichever kind of key is expected; and that message differs from both
  messages of a malformed key.
\<close>

theorem C6_openssh_rejected_before_parsing:
  "validate_rsa_key lib (''ssh-rsa '' @ rest) is_secret = Inl (ValidationError None msg_openssh)
   \<and> msg_openssh \<noteq> msg_invalid_rsa \<and> msg_openssh \<noteq> msg_invalid_key e"
  by (simp add: validate_rsa_key_def startswith_def msg_openssh_def msg_invalid_rsa_def
      msg_invalid_key_def)

subsection \<open>Auxiliary facts about the fields and about clean\<close>

lemma to_python_None: "to_python None = []"
  by (simp add: to_python_def)

lemma to_python_empty: "to_python (Some []) = []"
  by (simp add: to_python_def strip_def)

lemma dropWhile_replicate: "\<not> P c \<Longrightarrow> dropWhile P (replicate n c) = replicate n c"
  by (cases n) simp_all

lemma strip_replicate: "\<not> isspace c \<Longrightarrow> strip (replicate n c) = replicate n c"
  by (simp add: strip_def dropWhile_replicate)

lemma CharField_clean_empty:
  "to_python raw = [] \<Longrightarrow>
     CharField_clean f raw = (if required f then Inl [required_error] else Inr [])"
  by (simp add: CharField_clean_def)

lemma CharField_clean_Inr:
  "CharField_clean f raw = Inr v \<Longrightarrow>
     v = to_python raw \<and> (required f \<longrightarrow> v \<noteq> []) \<and> (v \<noteq> [] \<longrightarrow> run_validators f v = [])"
  by (auto simp: CharField_clean_def Let_def split: if_splits)

lemma run_validators_bound:
  "run_validators f v = [] \<Longrightarrow> max_length f = Some m \<Longrightarrow> length v \<le> m"
  by (auto simp: run_validators_def split: if_splits)

lemma SecretForm_plaintext_simps:
  "max_length (SecretForm_plaintext M p) = Some M"
  "required (SecretForm_plaintext M p) = py_not p"
  "max_length (SecretForm_plaintext2 M) = Some M"
  "required (SecretForm_plaintext2 M) = False"
  by (simp_all add: SecretForm_plaintext_def SecretForm_plaintext2_def Let_def)

lemma SecretCSVForm_plaintext_simps:
  "max_length SecretCSVForm_plaintext = None"
  "required SecretCSVForm_plaintext = True"
  by (simp_all add: SecretCSVForm_plaintext_def)

lemma SecretForm_plaintext_bounded:
  "CharField_clean (SecretForm_plaintext M p) raw = Inr v \<Longrightarrow> length v \<le> M"
  using CharField_clean_Inr [of "SecretForm_plaintext M p" raw v]
    run_validators_bound [of "SecretForm_plaintext M p" v M]
  by (cases "v = []") (auto simp: SecretForm_plaintext_simps)

lemma full_clean_Valid:
  "SecretForm_full_clean M instance_pk objects raw raw2 dev rol nam = Valid \<Longrightarrow>
     \<exists>p. CharField_clean (SecretForm_plaintext M instance_pk) raw = Inr p
        \<and> CharField_clean (SecretForm_plaintext2 M) raw2 = Inr p"
  by (auto simp: SecretForm_full_clean_def Let_def SecretForm_clean_def cleaned_def
      split: option.splits if_splits sum.splits error.splits)

lemma exists_exclude_filter:
  "exists_qs (exclude_qs p (filter_qs d r n qs)) =
     (\<exists>s\<in>set qs. device s = d \<and> role s = r \<and> name s = n \<and> Some (pk s) \<noteq> p)"
  by (cases p) (auto simp: exists_qs_def exclude_qs_def filter_qs_def filter_empty_conv)

lemma clean_all_present:
  assumes "cd_plaintext cd = Some p" "cd_plaintext2 cd = Some p" "cd_device cd = Some d"
    "cd_role cd = Some r" "cd_name cd = Some n"
  shows "SecretForm_clean instance_pk objects cd =
           (if \<exists>s\<in>set objects. device s = d \<and> role s = r \<and> name s = n \<and> Some (pk s) \<noteq> instance_pk
            then Inl (ValidationError None msg_unique) else Inr ())"
  using assms by (simp add: SecretForm_clean_def exists_exclude_filter)

lemma clean_Inr_iff:
  "SecretForm_clean instance_pk objects cd = Inr u \<longleftrightarrow>
     (\<exists>p d r n. cd_plaintext cd = Some p \<and> cd_plaintext2 cd = Some p \<and> cd_device cd = Some d
        \<and> cd_role cd = Some r \<and> cd_name cd = Some n
        \<and> \<not> (\<exists>s\<in>set objects. device s = d \<and> role s = r \<and> name s = n \<and> Some (pk s) \<noteq> instance_pk))"
  by (auto simp: SecretForm_clean_def exists_exclude_filter split: option.splits)

lemma full_clean_mismatch:
  "CharField_clean (SecretForm_plaintext M instance_pk) raw = Inr p \<Longrightarrow>
   CharField_clean (SecretForm_plaintext2 M) raw2 = Inr p2 \<Longrightarrow> p \<noteq> p2 \<Longrightarrow>
   SecretForm_full_clean M instance_pk objects raw raw2 dev rol nam = Invalid"
  by (simp add: SecretForm_full_clean_def cleaned_def SecretForm_clean_def)

lemma full_clean_plaintext_rejected:
  "CharField_clean (SecretForm_plaintext M instance_pk) raw = Inl errs \<Longrightarrow>
   SecretForm_full_clean M instance_pk objects raw raw2 dev rol nam = Raised (KeyError ''plaintext'')"
  by (simp add: SecretForm_full_clean_def cleaned_def SecretForm_clean_def)

subsection \<open>The plaintext fields\<close>

text \<open>
  C4. The two paths differ. The plaintext field of \<open>SecretForm\<close> carries
  \<open>max_length = SECRET_PLAINTEXT_MAX_LENGTH\<close> and refuses a value one character longer
  than the bound; the plaintext field of \<open>SecretCSVForm\<close> is declared without
  \<open>max_length\<close>, accepts the same value unchanged, and \<open>save\<close> assigns it to the
  record's plaintext.
\<close>

theorem C4_csv_plaintext_has_no_length_bound:
  "CharField_clean SecretCSVForm_plaintext (Some (replicate (Suc M) 120)) = Inr (replicate (Suc M) 120)
   \<and> SecretCSVForm_save s (cleaned (CharField_clean SecretCSVForm_plaintext (Some (replicate (Suc M) 120))))
       = Inr (s, replicate (Suc M) 120)
   \<and> length (replicate (Suc M) (120::nat)) > M
   \<and> CharField_clean (SecretForm_plaintext M instance_pk) (Some (replicate (Suc M) 120))
       = Inl [max_length_error M (Suc M)]"
proof -
  have s: "strip (replicate (Suc M) 120) = replicate (Suc M) 120"
    by (rule strip_replicate) (simp add: isspace_def)
  have csv: "CharField_clean SecretCSVForm_plaintext (Some (replicate (Suc M) 120))
               = Inr (replicate (Suc M) 120)"
    by (simp add: CharField_clean_def to_python_def s run_validators_def Let_def
        SecretCSVForm_plaintext_simps del: replicate_Suc replicate.simps)
  have single: "CharField_clean (SecretForm_plaintext M instance_pk) (Some (replicate (Suc M) 120))
                  = Inl [max_length_error M (Suc M)]"
    by (simp add: CharField_clean_def to_python_def s run_validators_def Let_def
        SecretForm_plaintext_simps del: replicate_Suc replicate.simps)
  show ?thesis
    by (simp add: csv single cleaned_def SecretCSVForm_save_def del: replicate_Suc replicate.simps)
qed

text \<open>
  C8. For a record that is not stored yet (no primary key) the plaintext field is
  required: a value that is absent or empty after stripping is refused by the field, and
  a form that validates has a non-empty plaintext. For a stored record the field is not
  required, an omitted plaintext is cleaned to the empty string, and a form that omits both
  plaintext values validates when no other record holds its (device, role, name).
  A stored record is one whose primary key is not 0: the source tests
  \<open>not self.instance.pk\<close>, and the keys the database assigns start at 1.
\<close>

theorem C8_plaintext_required_for_new_record:
  "required (SecretForm_plaintext M None)
   \<and> (to_python raw = [] \<longrightarrow>
        CharField_clean (SecretForm_plaintext M None) raw = Inl [required_error])
   \<and> (SecretForm_full_clean M None objects raw raw2 dev rol nam = Valid \<longrightarrow> to_python raw \<noteq> [])
   \<and> (i \<noteq> 0 \<longrightarrow>
        \<not> required (SecretForm_plaintext M (Some i))
        \<and> CharField_clean (SecretForm_plaintext M (Some i)) None = Inr []
        \<and> CharField_clean (SecretForm_plaintext M (Some i)) (Some []) = Inr [])
   \<and> (i \<noteq> 0 \<and> \<not> (\<exists>s\<in>set objects. device s = d \<and> role s = r \<and> name s = n \<and> pk s \<noteq> i) \<longrightarrow>
        SecretForm_full_clean M (Some i) objects None None (Some d) (Some r) (Some n) = Valid)"
proof (intro conjI impI)
  show "required (SecretForm_plaintext M None)"
    by (simp add: SecretForm_plaintext_simps py_not_def)
next
  assume "to_python raw = []"
  then show "CharField_clean (SecretForm_plaintext M None) raw = Inl [required_error]"
    by (simp add: CharField_clean_empty SecretForm_plaintext_simps py_not_def)
next
  assume "SecretForm_full_clean M None objects raw raw2 dev rol nam = Valid"
  then obtain p where "CharField_clean (SecretForm_plaintext M None) raw = Inr p"
    using full_clean_Valid by blast
  then show "to_python raw \<noteq> []"
    using CharField_clean_Inr [of "SecretForm_plaintext M None" raw p]
    by (auto simp: SecretForm_plaintext_simps py_not_def)
next
  assume "i \<noteq> 0"
  then show "\<not> required (SecretForm_plaintext M (Some i))"
    by (simp add: SecretForm_plaintext_simps py_not_def)
next
  assume "i \<noteq> 0"
  then show "CharField_clean (SecretForm_plaintext M (Some i)) None = Inr []"
    by (simp add: CharField_clean_empty to_python_None SecretForm_plaintext_simps py_not_def)
next
  assume "i \<noteq> 0"
  then show "CharField_clean (SecretForm_plaintext M (Some i)) (Some []) = Inr []"
    by (simp add: CharField_clean_empty to_python_empty SecretForm_plaintext_simps py_not_def)
next
  assume a: "i \<noteq> 0 \<and> \<not> (\<exists>s\<in>set objects. device s = d \<and> role s = r \<and> name s = n \<and> pk s \<noteq> i)"
  then have 1: "CharField_clean (SecretForm_plaintext M (Some i)) None = Inr []"
    by (simp add: CharField_clean_empty to_python_None SecretForm_plaintext_simps py_not_def)
  have 2: "CharField_clean (SecretForm_plaintext2 M) None = Inr []"
    by (simp add: CharField_clean_empty to_python_None SecretForm_plaintext_simps)
  from a show "SecretForm_full_clean M (Some i) objects None None (Some d) (Some r) (Some n) = Valid"
    by (simp add: SecretForm_full_clean_def 1 2 cleaned_def clean_all_present)
qed

theorem C8_plaintext_required_for_new_record_witness:
  "required (SecretForm_plaintext 8 None)
   \<and> CharField_clean (SecretForm_plaintext 8 None) (Some [32, 32]) = Inl [required_error]
   \<and> SecretForm_full_clean 8 None example_objects (Some [104, 105]) (Some [104, 105])
        (Some 3) (Some 1) (Some ''admin'') = Valid
   \<and> to_python (Some [104, 105]) \<noteq> []
   \<and> CharField_clean (SecretForm_plaintext 8 (Some 1)) None = Inr []
   \<and> SecretForm_full_clean 8 (Some 1) example_objects None None (Some 1) (Some 1) (Some ''admin'')
       = Valid"
proof -
  note C8 = C8_plaintext_required_for_new_record
              [where M = 8 and raw = "Some [32, 32]" and objects = example_objects and i = 1
                 and d = 1 and r = 1 and n = "''admin''"]
  have e: "to_python (Some [32, 32]) = []"
    by (simp add: to_python_def strip_def isspace_def)
  have n: "(1::int) \<noteq> 0 \<and> \<not> (\<exists>s\<in>set example_objects. device s = 1 \<and> role s = 1
             \<and> name s = ''admin'' \<and> pk s \<noteq> 1)"
    by (simp add: example_objects_def)
  have v: "SecretForm_full_clean 8 None example_objects (Some [104, 105]) (Some [104, 105])
        (Some 3) (Some 1) (Some ''admin'') = Valid"
    by (simp add: SecretForm_full_clean_def CharField_clean_def to_python_def strip_def
        isspace_def run_validators_def SecretForm_plaintext_simps cleaned_def
        SecretForm_clean_def example_objects_def exists_qs_def exclude_qs_def filter_qs_def
        py_not_def)
  from C8_plaintext_required_for_new_record
         [where M = 8 and raw = "Some [104, 105]" and objects = example_objects
            and ?raw2.0 = "Some [104, 105]" and dev = "Some 3" and rol = "Some 1"
            and nam = "Some ''admin''"] v
  have t: "to_python (Some [104, 105]) \<noteq> []" by blast
  from C8 e n v t show ?thesis by simp
qed

subsection \<open>SecretForm.clean\<close>

text \<open>
  C1, as amended. When the five keys are present and the two plaintext values are equal,
  \<open>clean\<close> fails with the uniqueness error exactly when a stored secret with another
  primary key has the same (device, role, name), and succeeds otherwise; so a record that
  keeps its own (device, role, name) is not stopped by its own row. Whatever the other
  fields hold, \<open>clean\<close> never succeeds while such a secret exists.
\<close>

theorem C1_uniqueness_excluding_own_record:
  "(cd_plaintext cd = Some p \<and> cd_plaintext2 cd = Some p \<and> cd_device cd = Some d
      \<and> cd_role cd = Some r \<and> cd_name cd = Some n \<longrightarrow>
    SecretForm_clean instance_pk objects cd =
      (if \<exists>s\<in>set objects. device s = d \<and> role s = r \<and> name s = n \<and> Some (pk s) \<noteq> instance_pk
       then Inl (ValidationError None msg_unique) else Inr ()))
   \<and> ((\<exists>s\<in>set objects. cd_device cd = Some (device s) \<and> cd_role cd = Some (role s)
          \<and> cd_name cd = Some (name s) \<and> Some (pk s) \<noteq> instance_pk) \<longrightarrow>
        (\<exists>e. SecretForm_clean instance_pk objects cd = Inl e))"
proof (intro conjI impI)
  assume "cd_plaintext cd = Some p \<and> cd_plaintext2 cd = Some p \<and> cd_device cd = Some d
      \<and> cd_role cd = Some r \<and> cd_name cd = Some n"
  then show "SecretForm_clean instance_pk objects cd =
      (if \<exists>s\<in>set objects. device s = d \<and> role s = r \<and> name s = n \<and> Some (pk s) \<noteq> instance_pk
       then Inl (ValidationError None msg_unique) else Inr ())"
    using clean_all_present by blast
next
  assume a: "\<exists>s\<in>set objects. cd_device cd = Some (device s) \<and> cd_role cd = Some (role s)
          \<and> cd_name cd = Some (name s) \<and> Some (pk s) \<noteq> instance_pk"
  have "SecretForm_clean instance_pk objects cd \<noteq> Inr ()"
  proof
    assume "SecretForm_clean instance_pk objects cd = Inr ()"
    then obtain d r n where "cd_device cd = Some d" "cd_role cd = Some r" "cd_name cd = Some n"
      "\<not> (\<exists>s\<in>set objects. device s = d \<and> role s = r \<and> name s = n \<and> Some (pk s) \<noteq> instance_pk)"
      unfolding clean_Inr_iff by blast
    with a show False by auto
  qed
  then show "\<exists>e. SecretForm_clean instance_pk objects cd = Inl e"
    by (cases "SecretForm_clean instance_pk objects cd") auto
qed

theorem C1_uniqueness_excluding_own_record_witness:
  "SecretForm_clean (Some 2) example_objects
     \<lparr>cd_plaintext = Some [], cd_plaintext2 = Some [], cd_device = Some 1, cd_role = Some 1,
      cd_name = Some ''admin''\<rparr> = Inl (ValidationError None msg_unique)
   \<and> SecretForm_clean (Some 1) example_objects
     \<lparr>cd_plaintext = Some [], cd_plaintext2 = Some [], cd_device = Some 1, cd_role = Some 1,
      cd_name = Some ''admin''\<rparr> = Inr ()
   \<and> SecretForm_clean None example_objects
     \<lparr>cd_plaintext = Some [97], cd_plaintext2 = Some [97], cd_device = Some 1, cd_role = Some 1,
      cd_name = Some ''admin''\<rparr> = Inl (ValidationError None msg_unique)"
proof -
  let ?e = "\<lparr>cd_plaintext = Some [], cd_plaintext2 = Some [], cd_device = Some 1,
             cd_role = Some 1, cd_name = Some ''admin''\<rparr>"
  let ?n = "\<lparr>cd_plaintext = Some [97], cd_plaintext2 = Some [97], cd_device = Some 1,
             cd_role = Some 1, cd_name = Some ''admin''\<rparr>"
  have 1: "SecretForm_clean (Some 2) example_objects ?e = Inl (ValidationError None msg_unique)"
    using C1_uniqueness_excluding_own_record
            [where cd = ?e and p = "[]" and d = 1 and r = 1 and n = "''admin''"
               and instance_pk = "Some 2" and objects = example_objects]
    by (simp add: example_objects_def)
  have 2: "SecretForm_clean (Some 1) example_objects ?e = Inr ()"
    using C1_uniqueness_excluding_own_record
            [where cd = ?e and p = "[]" and d = 1 and r = 1 and n = "''admin''"
               and instance_pk = "Some 1" and objects = example_objects]
    by (simp add: example_objects_def)
  have 3: "SecretForm_clean None example_objects ?n = Inl (ValidationError None msg_unique)"
    using C1_uniqueness_excluding_own_record
            [where cd = ?n and p = "[97]" and d = 1 and r = 1 and n = "''admin''"
               and instance_pk = None and objects = example_objects]
    by (simp add: example_objects_def)
  from 1 2 3 show ?thesis by simp
qed

text \<open>
  C1 as first stated does not hold: with a colliding secret in the store and two
  plaintext values that differ, the error is the one of the plaintext check, which comes
  first, and not the uniqueness error.
\<close>

theorem C1_counterexample:
  "exists_qs (exclude_qs (Some 2) (filter_qs 1 1 ''admin'' example_objects))
   \<and> SecretForm_clean (Some 2) example_objects
     \<lparr>cd_plaintext = Some [97], cd_plaintext2 = Some [98], cd_device = Some 1, cd_role = Some 1,
      cd_name = Some ''admin''\<rparr>
     = Inl (ValidationError (Some ''plaintext2'') msg_mismatch)
   \<and> Inl (ValidationError (Some ''plaintext2'') msg_mismatch)
       \<noteq> (Inl (ValidationError None msg_unique) :: error + unit)"
  by (simp add: SecretForm_clean_def example_objects_def exists_qs_def exclude_qs_def
      filter_qs_def)

text \<open>
  C9. When the two plaintext values in \<open>cleaned_data\<close> differ, \<open>clean\<close> fails with the
  error attached to \<open>plaintext2\<close>; when \<open>clean\<close> succeeds the two values are present
  and equal; equal values (the empty ones included) never produce that error. For the
  form: two fields cleaned to different values make it invalid, and a form that validates
  has equal cleaned values.
\<close>

theorem C9_plaintext_values_must_match:
  "(cd_plaintext cd = Some p \<and> cd_plaintext2 cd = Some p2 \<and> p \<noteq> p2 \<longrightarrow>
      SecretForm_clean instance_pk objects cd
        = Inl (ValidationError (Some ''plaintext2'') msg_mismatch))
   \<and> (SecretForm_clean instance_pk objects cd = Inr () \<longrightarrow>
        cd_plaintext cd \<noteq> None \<and> cd_plaintext cd = cd_plaintext2 cd)
   \<and> (cd_plaintext cd = Some p \<and> cd_plaintext2 cd = Some p \<longrightarrow>
        SecretForm_clean instance_pk objects cd
          \<noteq> Inl (ValidationError (Some ''plaintext2'') msg_mismatch))
   \<and> (CharField_clean (SecretForm_plaintext M instance_pk) raw = Inr p
        \<and> CharField_clean (SecretForm_plaintext2 M) raw2 = Inr p2 \<and> p \<noteq> p2 \<longrightarrow>
        SecretForm_full_clean M instance_pk objects raw raw2 dev rol nam = Invalid)
   \<and> (SecretForm_full_clean M instance_pk objects raw raw2 dev rol nam = Valid \<longrightarrow>
        to_python raw = to_python raw2)"
proof (intro conjI impI)
  assume "cd_plaintext cd = Some p \<and> cd_plaintext2 cd = Some p2 \<and> p \<noteq> p2"
  then show "SecretForm_clean instance_pk objects cd
        = Inl (ValidationError (Some ''plaintext2'') msg_mismatch)"
    by (simp add: SecretForm_clean_def)
next
  assume a: "SecretForm_clean instance_pk objects cd = Inr ()"
  then show "cd_plaintext cd \<noteq> None" "cd_plaintext cd = cd_plaintext2 cd"
    unfolding clean_Inr_iff by auto
next
  assume "cd_plaintext cd = Some p \<and> cd_plaintext2 cd = Some p"
  then show "SecretForm_clean instance_pk objects cd
          \<noteq> Inl (ValidationError (Some ''plaintext2'') msg_mismatch)"
    by (auto simp: SecretForm_clean_def split: option.splits)
next
  assume "CharField_clean (SecretForm_plaintext M instance_pk) raw = Inr p
        \<and> CharField_clean (SecretForm_plaintext2 M) raw2 = Inr p2 \<and> p \<noteq> p2"
  then show "SecretForm_full_clean M instance_pk objects raw raw2 dev rol nam = Invalid"
    using full_clean_mismatch by blast
next
  assume "SecretForm_full_clean M instance_pk objects raw raw2 dev rol nam = Valid"
  then obtain q where "CharField_clean (SecretForm_plaintext M instance_pk) raw = Inr q"
    "CharField_clean (SecretForm_plaintext2 M) raw2 = Inr q"
    using full_clean_Valid by blast
  then show "to_python raw = to_python raw2"
    using CharField_clean_Inr by metis
qed

theorem C9_plaintext_values_must_match_witness:
  "SecretForm_clean None example_objects
     \<lparr>cd_plaintext = Some [97], cd_plaintext2 = Some [98], cd_device = Some 1, cd_role = Some 2,
      cd_name = Some ''admin''\<rparr>
     = Inl (ValidationError (Some ''plaintext2'') msg_mismatch)
   \<and> SecretForm_clean None example_objects
     \<lparr>cd_plaintext = Some [], cd_plaintext2 = Some [], cd_device = Some 1, cd_role = Some 2,
      cd_name = Some ''admin''\<rparr> = Inr ()"
proof -
  let ?cd = "\<lparr>cd_plaintext = Some [97], cd_plaintext2 = Some [98], cd_device = Some 1,
              cd_role = Some 2, cd_name = Some ''admin''\<rparr>"
  have h: "cd_plaintext ?cd = Some [97] \<and> cd_plaintext2 ?cd = Some [98] \<and> [97] \<noteq> [98::nat]"
    by simp
  have 1: "SecretForm_clean None example_objects ?cd
     = Inl (ValidationError (Some ''plaintext2'') msg_mismatch)"
    using C9_plaintext_values_must_match [where cd = ?cd and p = "[97]" and ?p2.0 = "[98]"
            and instance_pk = None and objects = example_objects] h
    by blast
  have 2: "SecretForm_clean None example_objects
     \<lparr>cd_plaintext = Some [], cd_plaintext2 = Some [], cd_device = Some 1, cd_role = Some 2,
      cd_name = Some ''admin''\<rparr> = Inr ()"
    by (simp add: SecretForm_clean_def example_objects_def exists_qs_def exclude_qs_def
        filter_qs_def)
  from 1 2 show ?thesis by simp
qed

text \<open>
  C10, as amended. A missing \<open>plaintext\<close> key makes \<open>clean\<close> raise \<open>KeyError\<close>, and so
  does a missing \<open>plaintext2\<close> key; with both present and equal, a missing \<open>device\<close>,
  \<open>role\<close> or \<open>name\<close> key does too (the first missing one in that order). With both
  present and different, the plaintext error is raised before the other keys are read.
  For the form: a plaintext that its field refuses makes \<open>full_clean\<close> end in the
  \<open>KeyError\<close>.
\<close>

theorem C10_missing_key_raises_KeyError:
  "(cd_plaintext cd = None \<longrightarrow>
      SecretForm_clean instance_pk objects cd = Inl (KeyError ''plaintext''))
   \<and> (cd_plaintext cd = Some p \<and> cd_plaintext2 cd = None \<longrightarrow>
      SecretForm_clean instance_pk objects cd = Inl (KeyError ''plaintext2''))
   \<and> (cd_plaintext cd = Some p \<and> cd_plaintext2 cd = Some p
        \<and> (cd_device cd = None \<or> cd_role cd = None \<or> cd_name cd = None) \<longrightarrow>
      SecretForm_clean instance_pk objects cd =
        Inl (KeyError (if cd_device cd = None then ''device''
                       else if cd_role cd = None then ''role'' else ''name'')))
   \<and> (cd_plaintext cd = Some p \<and> cd_plaintext2 cd = Some p2 \<and> p \<noteq> p2 \<longrightarrow>
      SecretForm_clean instance_pk objects cd
        = Inl (ValidationError (Some ''plaintext2'') msg_mismatch))
   \<and> (CharField_clean (SecretForm_plaintext M instance_pk) raw = Inl errs \<longrightarrow>
        SecretForm_full_clean M instance_pk objects raw raw2 dev rol nam
          = Raised (KeyError ''plaintext''))"
  using full_clean_plaintext_rejected
  by (auto simp: SecretForm_clean_def split: option.splits)

theorem C10_missing_key_raises_KeyError_witness:
  "SecretForm_clean None example_objects
     \<lparr>cd_plaintext = None, cd_plaintext2 = Some [97], cd_device = Some 1, cd_role = Some 2,
      cd_name = Some ''admin''\<rparr> = Inl (KeyError ''plaintext'')
   \<and> SecretForm_clean None example_objects
     \<lparr>cd_plaintext = Some [97], cd_plaintext2 = Some [97], cd_device = None, cd_role = Some 2,
      cd_name = Some ''admin''\<rparr> = Inl (KeyError ''device'')
   \<and> SecretForm_full_clean 4 None example_objects (Some [97, 98, 99, 100, 101]) (Some [97])
       (Some 1) (Some 2) (Some ''admin'') = Raised (KeyError ''plaintext'')"
proof -
  let ?a = "\<lparr>cd_plaintext = None, cd_plaintext2 = Some [97], cd_device = Some 1,
             cd_role = Some 2, cd_name = Some ''admin''\<rparr>"
  let ?b = "\<lparr>cd_plaintext = Some [97], cd_plaintext2 = Some [97], cd_device = None,
             cd_role = Some 2, cd_name = Some ''admin''\<rparr>"
  have 1: "SecretForm_clean None example_objects ?a = Inl (KeyError ''plaintext'')"
    using C10_missing_key_raises_KeyError [where cd = ?a and instance_pk = None
            and objects = example_objects]
    by simp
  have 2: "SecretForm_clean None example_objects ?b = Inl (KeyError ''device'')"
    using C10_missing_key_raises_KeyError [where cd = ?b and p = "[97]" and instance_pk = None
            and objects = example_objects]
    by simp
  have r: "CharField_clean (SecretForm_plaintext 4 None) (Some [97, 98, 99, 100, 101])
             = Inl [max_length_error 4 5]"
    by (simp add: CharField_clean_def to_python_def strip_def isspace_def run_validators_def
        SecretForm_plaintext_simps)
  have 3: "SecretForm_full_clean 4 None example_objects (Some [97, 98, 99, 100, 101]) (Some [97])
       (Some 1) (Some 2) (Some ''admin'') = Raised (KeyError ''plaintext'')"
    using C10_missing_key_raises_KeyError
            [where M = 4 and instance_pk = None and raw = "Some [97, 98, 99, 100, 101]"
               and errs = "[max_length_error 4 5]" and objects = example_objects
               and ?raw2.0 = "Some [97]" and dev = "Some 1" and rol = "Some 2"
               and nam = "Some ''admin''"] r
    by blast
  from 1 2 3 show ?thesis by simp
qed

text \<open>
  C10 as first stated does not hold: the device key is missing, but the plaintext
  values differ, and \<open>clean\<close> raises the validation error, not a \<open>KeyError\<close>.
\<close>

theorem C10_counterexample:
  "SecretForm_clean None example_objects
     \<lparr>cd_plaintext = Some [97], cd_plaintext2 = Some [98], cd_device = None, cd_role = Some 2,
      cd_name = Some ''admin''\<rparr>
     = Inl (ValidationError (Some ''plaintext2'') msg_mismatch)"
  by (simp add: SecretForm_clean_def)

subsection \<open>Bulk import\<close>

text \<open>
  C3. A row that repeats the (device, role, name) of a stored secret is refused with the
  uniqueness violation, and bulk import refuses a row exactly when \<open>SecretForm.clean\<close>
  refuses the same data for a new record with the uniqueness error.
\<close>

theorem C3_bulk_import_enforces_uniqueness:
  "((\<exists>s\<in>set objects. device s = d \<and> role s = r \<and> name s = n) \<longrightarrow>
       bulk_import_row objects d r n = Inl UniquenessViolation)
   \<and> ((bulk_import_row objects d r n = Inl UniquenessViolation) =
        (SecretForm_clean None objects
           \<lparr>cd_plaintext = Some p, cd_plaintext2 = Some p, cd_device = Some d, cd_role = Some r,
            cd_name = Some n\<rparr> = Inl (ValidationError None msg_unique)))"
  by (auto simp: bulk_import_row_def create_secret_def filter_qs_def filter_empty_conv
      clean_all_present)

theorem C3_bulk_import_enforces_uniqueness_witness:
  "bulk_import_row example_objects 1 1 ''admin'' = Inl UniquenessViolation
   \<and> SecretForm_clean None example_objects
        \<lparr>cd_plaintext = Some [97], cd_plaintext2 = Some [97], cd_device = Some 1,
         cd_role = Some 1, cd_name = Some ''admin''\<rparr> = Inl (ValidationError None msg_unique)"
proof -
  have h: "\<exists>s\<in>set example_objects. device s = 1 \<and> role s = 1 \<and> name s = ''admin''"
    by (simp add: example_objects_def)
  from C3_bulk_import_enforces_uniqueness
         [where objects = example_objects and d = 1 and r = 1 and n = "''admin''" and p = "[97]"] h
  show ?thesis by blast
qed

end
